theory Spec2Isabelle
  imports Complex_Main "HOL-Library.Sublist"
begin

section \<open>Strings and character classes\<close>

text \<open>
  A Python \<^verbatim>\<open>str\<close> is modelled as a \<^typ>\<open>string\<close>: a list of characters, each character
  standing for the Unicode code point of the same number (U+0000 to U+00FF). The classes
  below are the ones \<^verbatim>\<open>draw.py\<close> reaches through the standard library: the whitespace
  set hard-coded in \<^verbatim>\<open>textwrap\<close>, the regular-expression classes \<^verbatim>\<open>\w\<close> and \<^verbatim>\<open>\d\<close>, and the
  whitespace of \<^verbatim>\<open>str.isspace\<close> and \<^verbatim>\<open>str.strip\<close>.
\<close>

definition tab :: char where
  "tab = CHR 0x09"

definition newline :: char where
  "newline = CHR 0x0A"

definition carriage_return :: char where
  "carriage_return = CHR 0x0D"

definition space :: char where
  "space = CHR 0x20"

definition hyphen :: char where
  "hyphen = CHR 0x2D"

text \<open>\<^verbatim>\<open>textwrap._whitespace = '\t\n\x0b\x0c\r '\<close>\<close>

definition whitespace :: string where
  "whitespace = [CHR 0x09, CHR 0x0A, CHR 0x0B, CHR 0x0C, CHR 0x0D, CHR 0x20]"

definition is_ws :: "char \<Rightarrow> bool" where
  "is_ws c \<longleftrightarrow> c \<in> set whitespace"

text \<open>\<^verbatim>\<open>\d\<close> and \<^verbatim>\<open>\w\<close> of the \<^verbatim>\<open>re\<close> module on \<^verbatim>\<open>str\<close> patterns, below U+0100.\<close>

definition is_digit :: "char \<Rightarrow> bool" where
  "is_digit c \<longleftrightarrow> (let n = (of_char c :: nat) in 0x30 \<le> n \<and> n \<le> 0x39)"

definition is_word_char :: "char \<Rightarrow> bool" where
  "is_word_char c \<longleftrightarrow>
     (let n = (of_char c :: nat) in
        (0x30 \<le> n \<and> n \<le> 0x39) \<or> (0x41 \<le> n \<and> n \<le> 0x5A) \<or> n = 0x5F \<or>
        (0x61 \<le> n \<and> n \<le> 0x7A) \<or> n = 0xAA \<or> (0xB2 \<le> n \<and> n \<le> 0xB3) \<or> n = 0xB5 \<or>
        (0xB9 \<le> n \<and> n \<le> 0xBA) \<or> (0xBC \<le> n \<and> n \<le> 0xBE) \<or>
        (0xC0 \<le> n \<and> n \<le> 0xD6) \<or> (0xD8 \<le> n \<and> n \<le> 0xF6) \<or> 0xF8 \<le> n)"

text \<open>\<^verbatim>\<open>letter = r'[^\d\W]'\<close>\<close>

definition is_letter :: "char \<Rightarrow> bool" where
  "is_letter c \<longleftrightarrow> is_word_char c \<and> \<not> is_digit c"

text \<open>\<^verbatim>\<open>word_punct = r'[\w!"\'&.,?]'\<close>\<close>

definition is_word_punct :: "char \<Rightarrow> bool" where
  "is_word_punct c \<longleftrightarrow>
     is_word_char c \<or> c \<in> set [CHR 0x21, CHR 0x22, CHR 0x27, CHR 0x26, CHR 0x2E, CHR 0x2C, CHR 0x3F]"

text \<open>The characters \<^verbatim>\<open>str.isspace\<close> accepts and \<^verbatim>\<open>str.strip()\<close> removes, below U+0100.\<close>

definition is_space_char :: "char \<Rightarrow> bool" where
  "is_space_char c \<longleftrightarrow>
     (let n = (of_char c :: nat) in
        (0x09 \<le> n \<and> n \<le> 0x0D) \<or> (0x1C \<le> n \<and> n \<le> 0x20) \<or> n = 0x85 \<or> n = 0xA0)"

text \<open>\<^verbatim>\<open>str.isspace()\<close>: at least one character, and all of them whitespace.\<close>

definition isspace :: "string \<Rightarrow> bool" where
  "isspace s \<longleftrightarrow> s \<noteq> [] \<and> list_all is_space_char s"

text \<open>\<^verbatim>\<open>str.strip()\<close>\<close>

definition strip :: "string \<Rightarrow> string" where
  "strip s = rev (dropWhile is_space_char (rev (dropWhile is_space_char s)))"

text \<open>\<^verbatim>\<open>sep.join(parts)\<close>\<close>

fun join :: "string \<Rightarrow> string list \<Rightarrow> string" where
  "join sep [] = []"
| "join sep [s] = s"
| "join sep (s # t # ss) = s @ sep @ join sep (t # ss)"

section \<open>The tokenizer: \<^verbatim>\<open>TextWrapper()._split_chunks\<close>\<close>

text \<open>
  \<^verbatim>\<open>wrap_font_text\<close> tokenizes with a default-constructed \<^verbatim>\<open>textwrap.TextWrapper\<close>, so with
  \<^verbatim>\<open>expand_tabs\<close>, \<^verbatim>\<open>replace_whitespace\<close> and \<^verbatim>\<open>break_on_hyphens\<close> all true and
  \<^verbatim>\<open>tabsize = 8\<close>.

  \<^verbatim>\<open>str.expandtabs(tabsize)\<close> keeps a column counter: a tab becomes the spaces up to the next
  multiple of \<^verbatim>\<open>tabsize\<close>, any other character advances the column by one, and a line feed
  or carriage return resets it.
\<close>

fun expandtabs_from :: "nat \<Rightarrow> nat \<Rightarrow> string \<Rightarrow> string" where
  "expandtabs_from tabsize col [] = []"
| "expandtabs_from tabsize col (c # cs) =
     (if c = tab then
        (if tabsize > 0 then
           (let incr = tabsize - col mod tabsize
            in replicate incr space @ expandtabs_from tabsize (col + incr) cs)
         else expandtabs_from tabsize col cs)
      else c # expandtabs_from tabsize
                 (if c = newline \<or> c = carriage_return then 0 else col + 1) cs)"

definition expandtabs :: "nat \<Rightarrow> string \<Rightarrow> string" where
  "expandtabs tabsize text = expandtabs_from tabsize 0 text"

text \<open>\<^verbatim>\<open>text.translate(unicode_whitespace_trans)\<close>: every whitespace character becomes a space.\<close>

definition translate_whitespace :: "string \<Rightarrow> string" where
  "translate_whitespace text = map (\<lambda>c. if is_ws c then space else c) text"

definition munge_whitespace :: "string \<Rightarrow> string" where
  "munge_whitespace text = translate_whitespace (expandtabs 8 text)"

text \<open>
  \<^verbatim>\<open>wordsep_re\<close> is one capturing group with three alternatives, tried in this order at a
  position: a run of whitespace; an em-dash between words; a word, possibly hyphenated.
  The functions below decide the lookarounds. The text before the current position is
  kept reversed (its head is the character just before the position), because the
  lookbehinds read it, also across the end of the previous match.
\<close>

text \<open>\<^verbatim>\<open>-{2,}\w\<close> at the head of the rest: two or more hyphens, all of them, then a word
  character (with fewer hyphens taken, the next character is a hyphen, not \<^verbatim>\<open>\w\<close>).\<close>

definition dashes_then_word :: "string \<Rightarrow> bool" where
  "dashes_then_word r \<longleftrightarrow>
     (let k = length (takeWhile (\<lambda>c. c = hyphen) r)
      in 2 \<le> k \<and> (case drop k r of [] \<Rightarrow> False | c # _ \<Rightarrow> is_word_char c))"

text \<open>\<^verbatim>\<open>(?<=wp)\<close>: the character before the position is word punctuation.\<close>

definition after_word_punct :: "string \<Rightarrow> bool" where
  "after_word_punct p \<longleftrightarrow> (case p of [] \<Rightarrow> False | q # _ \<Rightarrow> is_word_punct q)"

text \<open>
  The hyphenated-word tail, at a position where the next character is the hyphen:
  \<^verbatim>\<open>-(?: (?<=lt{2}-) | (?<=lt-lt-)) (?= lt -? lt)\<close>. Here \<open>p\<close> is the reversed text before the
  hyphen and \<open>r\<close> the text after it.
\<close>

definition hyphen_lookbehind :: "string \<Rightarrow> bool" where
  "hyphen_lookbehind p \<longleftrightarrow>
     (case p of
        a # b # rest \<Rightarrow>
          (is_letter a \<and> is_letter b) \<or>
          (is_letter a \<and> b = hyphen \<and> (case rest of [] \<Rightarrow> False | c # _ \<Rightarrow> is_letter c))
      | _ \<Rightarrow> False)"

definition hyphen_lookahead :: "string \<Rightarrow> bool" where
  "hyphen_lookahead r \<longleftrightarrow>
     (case r of
        a # b # rest \<Rightarrow>
          is_letter a \<and>
          ((b = hyphen \<and> (case rest of [] \<Rightarrow> False | c # _ \<Rightarrow> is_letter c)) \<or> is_letter b)
      | _ \<Rightarrow> False)"

text \<open>
  The word alternative \<^verbatim>\<open>nws+? (?: hyphenated | (?=ws|\Z) | (?<=wp)(?=-{2,}\w))\<close> is lazy:
  it takes the fewest non-whitespace characters after which one of the three tails
  matches. \<open>word_tail p r\<close> is called once the first character is taken, with \<open>p\<close> the
  reversed text up to the position and \<open>r\<close> the rest; it returns how many more characters
  the match takes.
\<close>

fun word_tail :: "string \<Rightarrow> string \<Rightarrow> nat" where
  "word_tail p [] = 0"
| "word_tail p (c # r) =
     (if c = hyphen \<and> hyphen_lookbehind p \<and> hyphen_lookahead r then 1
      else if is_ws c then 0
      else if after_word_punct p \<and> dashes_then_word (c # r) then 0
      else 1 + word_tail (c # p) r)"

text \<open>The length of the match of \<^verbatim>\<open>wordsep_re\<close> at the head of a non-empty rest.\<close>

fun match_len :: "string \<Rightarrow> string \<Rightarrow> nat" where
  "match_len p [] = 0"
| "match_len p (c # r) =
     (if is_ws c then length (takeWhile is_ws (c # r))
      else if after_word_punct p \<and> dashes_then_word (c # r)
        then length (takeWhile (\<lambda>x. x = hyphen) (c # r))
      else 1 + word_tail (c # p) r)"

text \<open>
  \<^verbatim>\<open>wordsep_re.split(text)\<close> followed by \<^verbatim>\<open>[c for c in chunks if c]\<close>. The pattern matches at
  every position of a non-empty rest, so the pieces between two matches are the empty
  strings that the filter removes, and the chunks are the successive matches.
\<close>

function split_from :: "string \<Rightarrow> string \<Rightarrow> string list" where
  "split_from p r =
     (if r = [] then []
      else (let n = match_len p r
            in take n r # split_from (rev (take n r) @ p) (drop n r)))"
  by pat_completeness auto
termination
proof (relation "measure (\<lambda>(p, r). length r)")
  fix p r :: string and n :: nat
  assume "r \<noteq> []" and n: "n = match_len p r"
  then obtain c r' where r: "r = c # r'"
    by (cases r) auto
  have "0 < match_len p (c # r')"
    by (auto simp: dashes_then_word_def Let_def)
  with r n show "((rev (take n r) @ p, drop n r), (p, r)) \<in> measure (\<lambda>(p, r). length r)"
    by simp
qed simp

declare split_from.simps [simp del]

definition split :: "string \<Rightarrow> string list" where
  "split text = split_from [] text"

definition split_chunks :: "string \<Rightarrow> string list" where
  "split_chunks text = split (munge_whitespace text)"

section \<open>The wrapping loop of \<^verbatim>\<open>wrap_font_text\<close>\<close>

text \<open>
  A font is what the code asks of it: \<^verbatim>\<open>font.getsize(s)\<close> returns the pixel width and
  height of a string, both non-negative.
\<close>

record font =
  getsize :: "string \<Rightarrow> nat \<times> nat"

record wrap_state =
  lines :: "string list list"
  cur_line :: "string list"
  cur_line_width :: int

definition wrap_init :: wrap_state where
  "wrap_init = \<lparr>lines = [], cur_line = [], cur_line_width = 0\<rparr>"

text \<open>One iteration of \<^verbatim>\<open>for chunk in chunks\<close>.\<close>

definition wrap_step :: "font \<Rightarrow> int \<Rightarrow> wrap_state \<Rightarrow> string \<Rightarrow> wrap_state" where
  "wrap_step fnt max_width st chunk =
     (let width = int (fst (getsize fnt chunk)) in
      if cur_line_width st + width > max_width then
        (if cur_line_width st = 0 then
           st\<lparr>lines := lines st @ [[chunk]], cur_line := [], cur_line_width := 0\<rparr>
         else
           st\<lparr>lines := lines st @ [cur_line st],
              cur_line := (if isspace chunk then [] else [chunk]),
              cur_line_width := width\<rparr>)
      else
        st\<lparr>cur_line := cur_line st @ [chunk], cur_line_width := cur_line_width st + width\<rparr>)"

definition wrap_loop :: "font \<Rightarrow> int \<Rightarrow> wrap_state \<Rightarrow> string list \<Rightarrow> wrap_state" where
  "wrap_loop fnt max_width st chunks = foldl (wrap_step fnt max_width) st chunks"

text \<open>The list \<^verbatim>\<open>lines\<close> when the \<^verbatim>\<open>return\<close> statement is reached.\<close>

definition wrap_lines :: "font \<Rightarrow> string list \<Rightarrow> int \<Rightarrow> string list list" where
  "wrap_lines fnt chunks max_width =
     (let st = wrap_loop fnt max_width wrap_init chunks
      in if cur_line st \<noteq> [] then lines st @ [cur_line st] else lines st)"

definition wrap_font_text :: "font \<Rightarrow> string \<Rightarrow> int \<Rightarrow> string" where
  "wrap_font_text fnt text max_width =
     join [newline] (map (\<lambda>line. strip (concat line)) (wrap_lines fnt (split_chunks text) max_width))"

text \<open>A font for examples: every character is one pixel wide and ten high.\<close>

definition unit_font :: font where
  "unit_font = \<lparr>getsize = (\<lambda>s. (length s, 10))\<rparr>"

text \<open>The measured width of a line: the sum of the widths of its chunks.\<close>

definition chunk_width :: "font \<Rightarrow> string \<Rightarrow> int" where
  "chunk_width fnt chunk = int (fst (getsize fnt chunk))"

definition line_width :: "font \<Rightarrow> string list \<Rightarrow> int" where
  "line_width fnt line = sum_list (map (chunk_width fnt) line)"

text \<open>A line that is one chunk, itself wider than the budget.\<close>

definition overlong_single :: "font \<Rightarrow> int \<Rightarrow> string list \<Rightarrow> bool" where
  "overlong_single fnt max_width line \<longleftrightarrow>
     (case line of [chunk] \<Rightarrow> max_width < chunk_width fnt chunk | _ \<Rightarrow> False)"

text \<open>What the loop keeps true of its three variables.\<close>

definition wrap_inv :: "font \<Rightarrow> int \<Rightarrow> wrap_state \<Rightarrow> bool" where
  "wrap_inv fnt max_width st \<longleftrightarrow>
     0 \<le> cur_line_width st \<and>
     line_width fnt (cur_line st) \<le> cur_line_width st \<and>
     (cur_line_width st \<noteq> 0 \<longrightarrow> 0 \<le> max_width) \<and>
     (cur_line_width st \<le> max_width \<or> cur_line st = [] \<or>
      overlong_single fnt max_width (cur_line st)) \<and>
     (\<forall>line \<in> set (lines st).
        overlong_single fnt max_width line \<or> line_width fnt line \<le> max_width)"




section \<open>Colours: \<^verbatim>\<open>to_pil_color\<close>\<close>

text \<open>
  A pydantic \<^verbatim>\<open>Color\<close> is modelled by what \<^verbatim>\<open>as_rgb_tuple()\<close> returns: three integer
  channels, and a fourth, fractional alpha when the colour has one. The fraction is an
  exact rational here, where Python has a binary float. The result of \<^verbatim>\<open>to_pil_color\<close>
  is Pillow's colour tuple, of three or four integers.
\<close>

datatype Color = Color3 int int int | Color4 int int int rat

datatype PILColorTuple = PIL3 int int int | PIL4 int int int int

definition as_rgb_tuple :: "Color \<Rightarrow> Color" where
  "as_rgb_tuple color = color"

text \<open>Python 3's \<^verbatim>\<open>round(x)\<close> with one argument: the nearest integer, a tie going to the
  even one.\<close>

definition py_round :: "rat \<Rightarrow> int" where
  "py_round v =
     (let f = \<lfloor>v\<rfloor>; d = v - of_int f
      in if d < 1 / 2 then f
         else if 1 / 2 < d then f + 1
         else if even f then f else f + 1)"

definition to_pil_color :: "Color \<Rightarrow> PILColorTuple" where
  "to_pil_color color =
     (case as_rgb_tuple color of
        Color3 r g b \<Rightarrow> PIL3 r g b
      | Color4 r g b a \<Rightarrow> PIL4 r g b (py_round (a * 255)))"

section \<open>Configuration, errors and the imaging library\<close>

datatype error = ValueError string | OSError string | OtherError string

text \<open>Sequencing of steps that may raise: the first error ends the computation.\<close>

definition and_then :: "error + 'a \<Rightarrow> ('a \<Rightarrow> error + 'b) \<Rightarrow> error + 'b" where
  "and_then m f = (case m of Inl e \<Rightarrow> Inl e | Inr v \<Rightarrow> f v)"

text \<open>
  Modelled from the spec: the configuration classes \<^verbatim>\<open>PaddingConfig\<close>, \<^verbatim>\<open>TextFieldConfig\<close>
  and \<^verbatim>\<open>CardGenConfig\<close> of \<^verbatim>\<open>config.py\<close>, which is not among the sources. The spec's
  FieldConfig has a position (x, y: integers), a font reference and size, a foreground
  colour, an optional background colour, a padding of four independent insets, a wrap
  flag, an optional explicit maximum width in integer pixels, and the source, format,
  default and optional metadata. The records hold these attributes as \<^verbatim>\<open>draw.py\<close> reads
  them: \<^verbatim>\<open>source\<close> is a string or a list of strings, \<^verbatim>\<open>default\<close> is absent, a string or a
  mapping, \<^verbatim>\<open>format\<close>, \<^verbatim>\<open>parse\<close>, \<^verbatim>\<open>bg\<close> and \<^verbatim>\<open>max_width\<close> may be \<^verbatim>\<open>None\<close>. The two
  \<^verbatim>\<open>assert isinstance\<close> lines of \<^verbatim>\<open>draw_text_field\<close> are marked "for mypy": \<^verbatim>\<open>padding\<close> is
  always a \<^verbatim>\<open>PaddingConfig\<close> and \<^verbatim>\<open>fg\<close> always a \<^verbatim>\<open>Color\<close> here. Field names carry a prefix,
  since a record field is a constant of the theory.
\<close>

record PaddingConfig =
  pad_top :: int
  pad_right :: int
  pad_bottom :: int
  pad_left :: int

datatype source = Single string | Multi "string list"

datatype default_value = DefaultStr string | DefaultMap "(string \<times> string) list"

record TextFieldConfig =
  field_source :: source
  field_default :: "default_value option"
  field_format :: "string option"
  field_optional :: bool
  field_parse :: "string option"
  field_x :: int
  field_y :: int
  field_font :: string
  field_font_size :: int
  field_fg :: Color
  field_bg :: "Color option"
  field_padding :: PaddingConfig
  field_wrap :: bool
  field_max_width :: "int option"

record CardGenConfig =
  template :: string
  text_fields :: "TextFieldConfig list"

text \<open>
  An image is its mode (Pillow's mode string: \<^verbatim>\<open>"RGB"\<close>, \<^verbatim>\<open>"RGBA"\<close>, \<^verbatim>\<open>"L"\<close>, ...), its size
  and its pixel data. The pixel data is a type parameter: the arithmetic on pixels and
  the rasterising of glyphs belong to the library and enter as functions of the record
  \<open>pil\<close> below.
\<close>

type_synonym mode = string

record 'px image =
  im_mode :: mode
  im_size :: "int \<times> int"
  pixels :: 'px

definition im_width :: "'px image \<Rightarrow> int" where
  "im_width im = fst (im_size im)"

type_synonym bbox = "int \<times> int \<times> int \<times> int"

text \<open>
  What \<^verbatim>\<open>draw_text_field\<close> and \<^verbatim>\<open>draw\<close> take from outside \<^verbatim>\<open>draw.py\<close>: the constant
  \<^verbatim>\<open>DEFAULT_FONT\<close> of \<^verbatim>\<open>config.py\<close>, and Pillow. Every call that may raise returns a sum.
  \<^item> \<open>Image_open\<close>, \<open>load_default\<close>, \<open>truetype\<close>: \<^verbatim>\<open>Image.open\<close>, \<^verbatim>\<open>ImageFont.load_default\<close>,
    \<^verbatim>\<open>ImageFont.truetype(path, size)\<close>;
  \<^item> \<open>textbbox\<close>: \<^verbatim>\<open>draw.textbbox(xy, text, font)\<close>;
  \<^item> \<open>new_pixels\<close>: the pixel data of \<^verbatim>\<open>Image.new(mode, size, color)\<close>;
  \<^item> \<open>rectangle_pixels\<close>: the pixel data after \<^verbatim>\<open>rectangle(xy, fill)\<close> on a drawing context
    that does not blend;
  \<^item> \<open>composite_pixels\<close>: the pixel data of the library's alpha compositing of a source
    over a destination of the same size, both \<^verbatim>\<open>RGBA\<close>;
  \<^item> \<open>text_pixels\<close>: the pixel data after \<^verbatim>\<open>draw.text(xy, text, font, fill)\<close>, given the
    mode of the image and whether the context blends.
\<close>

record 'px pil =
  DEFAULT_FONT :: string
  Image_open :: "string \<Rightarrow> error + 'px image"
  load_default :: "error + font"
  truetype :: "string \<Rightarrow> int \<Rightarrow> error + font"
  textbbox :: "font \<Rightarrow> int \<times> int \<Rightarrow> string \<Rightarrow> error + bbox"
  new_pixels :: "mode \<Rightarrow> int \<times> int \<Rightarrow> PILColorTuple \<Rightarrow> 'px"
  rectangle_pixels :: "'px \<Rightarrow> bbox \<Rightarrow> PILColorTuple \<Rightarrow> error + 'px"
  composite_pixels :: "'px \<Rightarrow> 'px \<Rightarrow> 'px"
  text_pixels :: "mode \<Rightarrow> bool \<Rightarrow> 'px \<Rightarrow> int \<times> int \<Rightarrow> string \<Rightarrow> font \<Rightarrow> PILColorTuple \<Rightarrow> error + 'px"

text \<open>
  \<^verbatim>\<open>ImageDraw.Draw(im, mode)\<close>. The drawing mode defaults to the image's mode; a drawing
  mode other than the image's is accepted only as \<^verbatim>\<open>RGBA\<close> on an \<^verbatim>\<open>RGB\<close> image, where
  the context blends; anything else raises \<^verbatim>\<open>ValueError("mode mismatch")\<close>. The result
  is the blend flag of the context.
\<close>

definition ImageDraw_Draw :: "'px image \<Rightarrow> mode option \<Rightarrow> error + bool" where
  "ImageDraw_Draw im m =
     (let md = (case m of None \<Rightarrow> im_mode im | Some v \<Rightarrow> v) in
      if md \<noteq> im_mode im then
        (if md = ''RGBA'' \<and> im_mode im = ''RGB'' then Inr True
         else Inl (ValueError ''mode mismatch''))
      else Inr False)"

text \<open>\<^verbatim>\<open>Image.new(mode, size, color)\<close>\<close>

definition Image_new :: "'px pil \<Rightarrow> mode \<Rightarrow> int \<times> int \<Rightarrow> PILColorTuple \<Rightarrow> 'px image" where
  "Image_new P m sz color = \<lparr>im_mode = m, im_size = sz, pixels = new_pixels P m sz color\<rparr>"

text \<open>\<^verbatim>\<open>ImageDraw.Draw(im).rectangle(xy, fill)\<close>: a context in the image's own mode.\<close>

definition rectangle :: "'px pil \<Rightarrow> 'px image \<Rightarrow> bbox \<Rightarrow> PILColorTuple \<Rightarrow> error + 'px image" where
  "rectangle P im xy fill =
     and_then (ImageDraw_Draw im None) (\<lambda>_.
     and_then (rectangle_pixels P (pixels im) xy fill) (\<lambda>px.
     Inr (im\<lparr>pixels := px\<rparr>)))"

text \<open>
  \<^verbatim>\<open>im.alpha_composite(overlay)\<close> with the default offsets, in place, on a source of the
  destination's size. The library requires mode \<^verbatim>\<open>RGBA\<close> of the destination
  (\<^verbatim>\<open>ValueError("image has wrong mode")\<close>), then the same mode and size of the source
  (\<^verbatim>\<open>ValueError("images do not match")\<close>).
\<close>

definition alpha_composite :: "'px pil \<Rightarrow> 'px image \<Rightarrow> 'px image \<Rightarrow> error + 'px image" where
  "alpha_composite P im overlay =
     (if im_mode im \<noteq> ''RGBA'' then Inl (ValueError ''image has wrong mode'')
      else if im_mode overlay \<noteq> im_mode im \<or> im_size overlay \<noteq> im_size im
        then Inl (ValueError ''images do not match'')
      else Inr (im\<lparr>pixels := composite_pixels P (pixels im) (pixels overlay)\<rparr>))"

text \<open>\<^verbatim>\<open>draw.text(xy, text, font, fill)\<close> on the context made for \<open>im\<close> with blend flag \<open>blend\<close>.\<close>

definition draw_text :: "'px pil \<Rightarrow> bool \<Rightarrow> 'px image \<Rightarrow> int \<times> int \<Rightarrow> string \<Rightarrow> font \<Rightarrow> PILColorTuple
    \<Rightarrow> error + 'px image" where
  "draw_text P blend im xy text fnt fill =
     and_then (text_pixels P (im_mode im) blend (pixels im) xy text fnt fill) (\<lambda>px.
     Inr (im\<lparr>pixels := px\<rparr>))"

section \<open>\<^verbatim>\<open>draw_text_field\<close>\<close>

text \<open>Lines 51 to 54: the font of the field.\<close>

definition load_font :: "'px pil \<Rightarrow> TextFieldConfig \<Rightarrow> error + font" where
  "load_font P field =
     (if field_font field = DEFAULT_FONT P then load_default P
      else truetype P (field_font field) (field_font_size field))"

text \<open>Line 57, the local variable \<^verbatim>\<open>max_width\<close>:
  \<^verbatim>\<open>field.max_width if field.max_width else im.width - field.x\<close> tests the truth value of
  an optional integer, and \<^verbatim>\<open>None\<close> and \<^verbatim>\<open>0\<close> are both false.\<close>

definition effective_max_width :: "'px image \<Rightarrow> TextFieldConfig \<Rightarrow> int" where
  "effective_max_width im field =
     (case field_max_width field of
        Some w \<Rightarrow> if w \<noteq> 0 then w else im_width im - field_x field
      | None \<Rightarrow> im_width im - field_x field)"

text \<open>Lines 56 to 58: the text after the \<^verbatim>\<open>if field.wrap\<close> statement.\<close>

definition wrapped_text :: "'px image \<Rightarrow> font \<Rightarrow> string \<Rightarrow> TextFieldConfig \<Rightarrow> string" where
  "wrapped_text im fnt text field =
     (if field_wrap field then
        (let max_width = effective_max_width im field
         in wrap_font_text fnt text max_width)
      else text)"

text \<open>Lines 62 to 81, the body of \<^verbatim>\<open>if field.bg\<close> (a \<^verbatim>\<open>Color\<close> object is always true, so
  the test is whether a background is configured).\<close>

definition draw_background :: "'px pil \<Rightarrow> 'px image \<Rightarrow> font \<Rightarrow> string \<Rightarrow> TextFieldConfig \<Rightarrow> Color
    \<Rightarrow> error + 'px image" where
  "draw_background P im fnt text field bg =
     and_then (textbbox P fnt (field_x field, field_y field) text) (\<lambda>(x0, y0, x1, y1).
     (let x0 = x0 - pad_left (field_padding field);
          y0 = y0 - pad_top (field_padding field);
          x1 = x1 + pad_right (field_padding field);
          y1 = y1 + pad_bottom (field_padding field);
          overlay = Image_new P ''RGBA'' (im_size im) (PIL4 0 0 0 0)
      in and_then (rectangle P overlay (x0, y0, x1, y1) (to_pil_color bg)) (\<lambda>overlay.
         alpha_composite P im overlay)))"

text \<open>
  The image is mutated in place in the source; here each step returns the new image. The
  drawing context of line 60 keeps drawing into the same image after the compositing of
  line 81, which pastes its result into that image.
\<close>

definition draw_text_field :: "'px pil \<Rightarrow> 'px image \<Rightarrow> string \<Rightarrow> TextFieldConfig \<Rightarrow> error + 'px image" where
  "draw_text_field P im text field =
     and_then (load_font P field) (\<lambda>fnt.
     (let text = wrapped_text im fnt text field in
      and_then (ImageDraw_Draw im (Some ''RGBA'')) (\<lambda>blend.
      and_then (case field_bg field of
                  Some bg \<Rightarrow> draw_background P im fnt text field bg
                | None \<Rightarrow> Inr im) (\<lambda>im.
      draw_text P blend im (field_x field, field_y field) text fnt (to_pil_color (field_fg field))))))"

section \<open>\<^verbatim>\<open>draw\<close>\<close>










section \<open>Stand-ins for examples\<close>

text \<open>
  A stand-in for the imaging library whose pixel data is the list of the operations
  applied to it, and a stand-in for the front-matter functions that looks a key up in an
  association list. They serve to evaluate the functions above on concrete inputs.
\<close>

definition example_image :: "mode \<Rightarrow> string list image" where
  "example_image m = \<lparr>im_mode = m, im_size = (100, 50), pixels = [''template'']\<rparr>"

definition example_pil :: "string list pil" where
  "example_pil =
     \<lparr>DEFAULT_FONT = ''default'',
      Image_open = (\<lambda>path. if path = ''template.png'' then Inr (example_image ''RGBA'')
                           else Inl (OSError ''cannot open file'')),
      load_default = Inr unit_font,
      truetype = (\<lambda>path sz. if path = ''missing.ttf'' then Inl (OSError ''cannot open resource'')
                             else Inr unit_font),
      textbbox = (\<lambda>fnt (x, y) s.
                    Inr (x, y, x + int (fst (getsize fnt s)), y + int (snd (getsize fnt s)))),
      new_pixels = (\<lambda>m sz color. [''new'']),
      rectangle_pixels = (\<lambda>px box fill. Inr (px @ [''rectangle''])),
      composite_pixels = (\<lambda>dst src. dst @ [''composite(''] @ src @ ['')'']),
      text_pixels = (\<lambda>m blend px xy s fnt fill. Inr (px @ [''text'', s]))\<rparr>"


definition example_field :: TextFieldConfig where
  "example_field =
     \<lparr>field_source = Single ''title'', field_default = None, field_format = None,
      field_optional = False, field_parse = None, field_x = 10, field_y = 20,
      field_font = ''default'', field_font_size = 40, field_fg = Color3 0 0 0,
      field_bg = None,
      field_padding = \<lparr>pad_top = 1, pad_right = 2, pad_bottom = 3, pad_left = 4\<rparr>,
      field_wrap = True, field_max_width = None\<rparr>"

section \<open>Properties of the wrapping loop\<close>

lemma wrap_inv_init: "wrap_inv fnt max_width wrap_init"
  by (simp add: wrap_inv_def wrap_init_def line_width_def)

lemma chunk_width_nonneg: "0 \<le> chunk_width fnt c"
  by (simp add: chunk_width_def)

lemma wrap_step_unfold:
  "wrap_step fnt max_width st chunk =
     (if cur_line_width st + chunk_width fnt chunk > max_width then
        (if cur_line_width st = 0 then
           st\<lparr>lines := lines st @ [[chunk]], cur_line := [], cur_line_width := 0\<rparr>
         else
           st\<lparr>lines := lines st @ [cur_line st],
              cur_line := (if isspace chunk then [] else [chunk]),
              cur_line_width := chunk_width fnt chunk\<rparr>)
      else
        st\<lparr>cur_line := cur_line st @ [chunk],
           cur_line_width := cur_line_width st + chunk_width fnt chunk\<rparr>)"
  by (simp add: wrap_step_def chunk_width_def Let_def)

lemma wrap_step_inv:
  assumes "wrap_inv fnt max_width st"
  shows "wrap_inv fnt max_width (wrap_step fnt max_width st chunk)"
proof -
  let ?w = "chunk_width fnt chunk"
  have w0: "0 \<le> ?w" by (rule chunk_width_nonneg)
  show ?thesis
  proof (cases "cur_line_width st + ?w > max_width")
    case over: True
    show ?thesis
    proof (cases "cur_line_width st = 0")
      case True
      with over assms w0 show ?thesis
        by (simp add: wrap_step_unfold wrap_inv_def line_width_def overlong_single_def)
    next
      case False
      with over assms w0 show ?thesis
        by (auto simp: wrap_step_unfold wrap_inv_def line_width_def overlong_single_def)
    qed
  next
    case False
    with assms w0 show ?thesis
      by (auto simp: wrap_step_unfold wrap_inv_def line_width_def)
  qed
qed

lemma wrap_loop_inv:
  "wrap_inv fnt max_width st \<Longrightarrow> wrap_inv fnt max_width (wrap_loop fnt max_width st chunks)"
  unfolding wrap_loop_def
  by (induction chunks arbitrary: st) (simp_all add: wrap_step_inv)

lemma wrap_lines_bound:
  assumes "line \<in> set (wrap_lines fnt chunks max_width)"
  shows "overlong_single fnt max_width line \<or> line_width fnt line \<le> max_width"
proof -
  let ?st = "wrap_loop fnt max_width wrap_init chunks"
  have inv: "wrap_inv fnt max_width ?st"
    by (simp add: wrap_loop_inv wrap_inv_init)
  from assms have "line \<in> set (lines ?st) \<or> (line = cur_line ?st \<and> cur_line ?st \<noteq> [])"
    by (auto simp: wrap_lines_def Let_def split: if_splits)
  then show ?thesis
  proof
    assume "line \<in> set (lines ?st)"
    with inv show ?thesis by (simp add: wrap_inv_def)
  next
    assume l: "line = cur_line ?st \<and> cur_line ?st \<noteq> []"
    from inv have "line_width fnt (cur_line ?st) \<le> cur_line_width ?st"
      and "cur_line_width ?st \<le> max_width \<or> cur_line ?st = [] \<or>
           overlong_single fnt max_width (cur_line ?st)"
      by (simp_all add: wrap_inv_def)
    with l show ?thesis by auto
  qed
qed

text \<open>
  Claim C2. For every input string, font and maximum width, every line that
  \<^verbatim>\<open>wrap_font_text\<close> emits has a measured width (the sum of the measured widths of its
  chunks) of at most \<^verbatim>\<open>max_width\<close>, except a line that is a single chunk whose own width
  exceeds \<^verbatim>\<open>max_width\<close>.
\<close>

theorem wrap_font_text_width_bound:
  "\<forall>line \<in> set (wrap_lines fnt (split_chunks text) max_width).
     \<not> overlong_single fnt max_width line \<longrightarrow> line_width fnt line \<le> max_width"
  using wrap_lines_bound by blast

theorem wrap_font_text_width_bound_witness:
  "[''aaaa''] \<in> set (wrap_lines unit_font (split_chunks ''aaaa bbbbbbbb cc'') 4)
   \<and> \<not> overlong_single unit_font 4 [''aaaa'']
   \<and> line_width unit_font [''aaaa''] \<le> 4"
proof -
  have m: "[''aaaa''] \<in> set (wrap_lines unit_font (split_chunks ''aaaa bbbbbbbb cc'') 4)"
    by code_simp
  have n: "\<not> overlong_single unit_font 4 [''aaaa'']"
    by code_simp
  from wrap_font_text_width_bound [of unit_font "''aaaa bbbbbbbb cc''" 4] m n
  show ?thesis by blast
qed

section \<open>Properties of the tokenizer\<close>



lemma word_tail_le: "word_tail p r \<le> length r"
  by (induction p r rule: word_tail.induct) auto




















text \<open>
  Claim C5: a whitespace chunk that overflows a non-empty line is discarded and the new
  line's accumulated width starts at zero. The code discards the chunk from the line but
  keeps its width as the accumulated width of the new, empty line. With one pixel per
  character and a budget of four, the space after \<open>aaaa\<close> leaves an empty line of width one;
  the over-wide next word then closes that empty line instead of taking the branch for an
  empty line, and the result has a blank line.
\<close>

theorem wrap_step_whitespace_width:
  "wrap_step unit_font 4 \<lparr>lines = [], cur_line = [''aaaa''], cur_line_width = 4\<rparr> '' ''
     = \<lparr>lines = [[''aaaa'']], cur_line = [], cur_line_width = 1\<rparr> \<and>
   wrap_lines unit_font (split_chunks ''aaaa bbbbbbbb'') 4 = [[''aaaa''], [], [''bbbbbbbb'']] \<and>
   wrap_font_text unit_font ''aaaa bbbbbbbb'' 4 = ''aaaa'' @ [newline, newline] @ ''bbbbbbbb''"
  by code_simp





section \<open>Properties of \<^verbatim>\<open>to_pil_color\<close>\<close>





section \<open>Properties of \<^verbatim>\<open>draw_text_field\<close> and \<^verbatim>\<open>draw\<close>\<close>

lemma and_then_simps [simp]:
  "and_then (Inl e) f = Inl e"
  "and_then (Inr v) f = f v"
  by (simp_all add: and_then_def)

lemma ImageDraw_Draw_RGBA:
  "ImageDraw_Draw im (Some ''RGBA'') =
     (if im_mode im = ''RGBA'' then Inr False
      else if im_mode im = ''RGB'' then Inr True
      else Inl (ValueError ''mode mismatch''))"
  by (auto simp: ImageDraw_Draw_def)

lemma ImageDraw_Draw_None: "ImageDraw_Draw im None = Inr False"
  by (simp add: ImageDraw_Draw_def)

lemma draw_background_unfold:
  assumes "textbbox P fnt (field_x field, field_y field) s = Inr (x0, y0, x1, y1)"
  shows "draw_background P im fnt s field bg =
     and_then (rectangle_pixels P (new_pixels P ''RGBA'' (im_size im) (PIL4 0 0 0 0))
                 (x0 - pad_left (field_padding field), y0 - pad_top (field_padding field),
                  x1 + pad_right (field_padding field), y1 + pad_bottom (field_padding field))
                 (to_pil_color bg))
       (\<lambda>ov. alpha_composite P im
                \<lparr>im_mode = ''RGBA'', im_size = im_size im, pixels = ov\<rparr>)"
  using assms
  by (cases "rectangle_pixels P (new_pixels P ''RGBA'' (im_size im) (PIL4 0 0 0 0))
                 (x0 - pad_left (field_padding field), y0 - pad_top (field_padding field),
                  x1 + pad_right (field_padding field), y1 + pad_bottom (field_padding field))
                 (to_pil_color bg)")
     (simp_all add: draw_background_def rectangle_def Image_new_def ImageDraw_Draw_None Let_def)



lemma draw_background_wrong_mode:
  assumes "im_mode im \<noteq> ''RGBA''"
  shows "\<exists>e. draw_background P im fnt s field bg = Inl e"
proof (cases "textbbox P fnt (field_x field, field_y field) s")
  case (Inl e)
  then show ?thesis by (simp add: draw_background_def)
next
  case (Inr box)
  obtain x0 y0 x1 y1 where box: "box = (x0, y0, x1, y1)" by (cases box) auto
  show ?thesis
    unfolding draw_background_unfold [OF Inr [unfolded box]]
    using assms
    by (cases "rectangle_pixels P (new_pixels P ''RGBA'' (im_size im) (PIL4 0 0 0 0))
                 (x0 - pad_left (field_padding field), y0 - pad_top (field_padding field),
                  x1 + pad_right (field_padding field), y1 + pad_bottom (field_padding field))
                 (to_pil_color bg)")
       (simp_all add: alpha_composite_def)
qed

text \<open>
  Claim C10, as amended. On a surface whose mode is not \<^verbatim>\<open>RGBA\<close>, \<^verbatim>\<open>draw_text_field\<close> with a
  background colour always raises an error and never returns an image. On an \<^verbatim>\<open>RGB\<close>
  surface, once the font, the bounding box and the rectangle on the overlay have
  succeeded, the error is the one of the alpha-compositing step. On a surface of any other
  mode (greyscale, palette, ...) the error is raised earlier, when the \<^verbatim>\<open>RGBA\<close> drawing
  context is created, once the font has loaded.
\<close>

theorem draw_text_field_background_needs_rgba:
  assumes "field_bg field = Some bg"
    and "im_mode im \<noteq> ''RGBA''"
  shows "(\<exists>e. draw_text_field P im s field = Inl e) \<and>
         (\<forall>fnt x0 y0 x1 y1 ov.
            im_mode im = ''RGB'' \<and> load_font P field = Inr fnt \<and>
            textbbox P fnt (field_x field, field_y field) (wrapped_text im fnt s field)
              = Inr (x0, y0, x1, y1) \<and>
            rectangle_pixels P (new_pixels P ''RGBA'' (im_size im) (PIL4 0 0 0 0))
              (x0 - pad_left (field_padding field), y0 - pad_top (field_padding field),
               x1 + pad_right (field_padding field), y1 + pad_bottom (field_padding field))
              (to_pil_color bg) = Inr ov
            \<longrightarrow> draw_text_field P im s field = Inl (ValueError ''image has wrong mode'')) \<and>
         (\<forall>fnt. im_mode im \<noteq> ''RGB'' \<and> load_font P field = Inr fnt
            \<longrightarrow> draw_text_field P im s field = Inl (ValueError ''mode mismatch''))"
proof (intro conjI allI impI)
  show "\<exists>e. draw_text_field P im s field = Inl e"
  proof (cases "load_font P field")
    case (Inl e)
    then show ?thesis by (simp add: draw_text_field_def)
  next
    case (Inr fnt)
    from draw_background_wrong_mode [OF assms(2), of P fnt "wrapped_text im fnt s field" field bg]
    obtain e where "draw_background P im fnt (wrapped_text im fnt s field) field bg = Inl e" ..
    with Inr assms show ?thesis
      by (simp add: draw_text_field_def ImageDraw_Draw_RGBA Let_def)
  qed
next
  fix fnt x0 y0 x1 y1 ov
  assume h: "im_mode im = ''RGB'' \<and> load_font P field = Inr fnt \<and>
            textbbox P fnt (field_x field, field_y field) (wrapped_text im fnt s field)
              = Inr (x0, y0, x1, y1) \<and>
            rectangle_pixels P (new_pixels P ''RGBA'' (im_size im) (PIL4 0 0 0 0))
              (x0 - pad_left (field_padding field), y0 - pad_top (field_padding field),
               x1 + pad_right (field_padding field), y1 + pad_bottom (field_padding field))
              (to_pil_color bg) = Inr ov"
  then have box: "textbbox P fnt (field_x field, field_y field) (wrapped_text im fnt s field)
              = Inr (x0, y0, x1, y1)" by simp
  from h assms show "draw_text_field P im s field = Inl (ValueError ''image has wrong mode'')"
    by (simp add: draw_text_field_def ImageDraw_Draw_RGBA draw_background_unfold [OF box]
        alpha_composite_def Let_def)
next
  fix fnt
  assume "im_mode im \<noteq> ''RGB'' \<and> load_font P field = Inr fnt"
  with assms show "draw_text_field P im s field = Inl (ValueError ''mode mismatch'')"
    by (simp add: draw_text_field_def ImageDraw_Draw_RGBA Let_def)
qed

theorem draw_text_field_background_needs_rgba_witness:
  "field_bg (example_field\<lparr>field_bg := Some (Color3 255 0 0)\<rparr>) = Some (Color3 255 0 0) \<and>
   im_mode (example_image ''RGB'') \<noteq> ''RGBA'' \<and>
   load_font example_pil (example_field\<lparr>field_bg := Some (Color3 255 0 0)\<rparr>) = Inr unit_font \<and>
   draw_text_field example_pil (example_image ''RGB'') ''Hello''
       (example_field\<lparr>field_bg := Some (Color3 255 0 0)\<rparr>)
     = Inl (ValueError ''image has wrong mode'')"
proof -
  let ?f = "example_field\<lparr>field_bg := Some (Color3 255 0 0)\<rparr>"
  let ?im = "example_image ''RGB''"
  have a: "field_bg ?f = Some (Color3 255 0 0)"
    by simp
  have b: "im_mode ?im \<noteq> ''RGBA''"
    by (simp add: example_image_def)
  have b': "im_mode ?im = ''RGB''"
    by (simp add: example_image_def)
  have c: "load_font example_pil ?f = Inr unit_font"
    by (simp add: load_font_def example_field_def example_pil_def)
  have w: "wrap_font_text unit_font ''Hello'' 90 = ''Hello''"
    by code_simp
  have t: "wrapped_text ?im unit_font ''Hello'' ?f = ''Hello''"
    using w by (simp add: wrapped_text_def effective_max_width_def example_field_def
        example_image_def im_width_def)
  have d: "textbbox example_pil unit_font (field_x ?f, field_y ?f)
             (wrapped_text ?im unit_font ''Hello'' ?f) = Inr (10, 20, 15, 30)"
    unfolding t by (simp add: example_pil_def example_field_def unit_font_def)
  have e: "rectangle_pixels example_pil (new_pixels example_pil ''RGBA'' (im_size ?im) (PIL4 0 0 0 0))
             (10 - pad_left (field_padding ?f), 20 - pad_top (field_padding ?f),
              15 + pad_right (field_padding ?f), 30 + pad_bottom (field_padding ?f))
             (to_pil_color (Color3 255 0 0)) = Inr [''new'', ''rectangle'']"
    by (simp add: example_pil_def)
  from draw_text_field_background_needs_rgba [OF a b, of example_pil "''Hello''"]
  have "\<forall>fnt x0 y0 x1 y1 ov.
            im_mode ?im = ''RGB'' \<and> load_font example_pil ?f = Inr fnt \<and>
            textbbox example_pil fnt (field_x ?f, field_y ?f) (wrapped_text ?im fnt ''Hello'' ?f)
              = Inr (x0, y0, x1, y1) \<and>
            rectangle_pixels example_pil (new_pixels example_pil ''RGBA'' (im_size ?im) (PIL4 0 0 0 0))
              (x0 - pad_left (field_padding ?f), y0 - pad_top (field_padding ?f),
               x1 + pad_right (field_padding ?f), y1 + pad_bottom (field_padding ?f))
              (to_pil_color (Color3 255 0 0)) = Inr ov
            \<longrightarrow> draw_text_field example_pil ?im ''Hello'' ?f = Inl (ValueError ''image has wrong mode'')"
    by blast
  with b' c d e have "draw_text_field example_pil ?im ''Hello'' ?f = Inl (ValueError ''image has wrong mode'')"
    by blast
  with a b c show ?thesis by blast
qed

text \<open>
  The claim as stated fails on a greyscale surface: the error is the mode mismatch of the
  drawing context of line 60, not the error of the alpha-compositing step.
\<close>

theorem draw_text_field_greyscale_error:
  "ImageDraw_Draw (example_image ''L'') (Some ''RGBA'') = Inl (ValueError ''mode mismatch'') \<and>
   draw_text_field example_pil (example_image ''L'') ''Hello''
       (example_field\<lparr>field_bg := Some (Color3 255 0 0)\<rparr>)
     = Inl (ValueError ''mode mismatch'') \<and>
   alpha_composite example_pil (example_image ''L'') (example_image ''RGBA'')
     = Inl (ValueError ''image has wrong mode'')"
  by (simp add: draw_text_field_def load_font_def example_field_def example_pil_def
      ImageDraw_Draw_def example_image_def alpha_composite_def)

text \<open>
  Claim C7, as amended. When the wrap flag is set, the text drawn is the wrapper's output
  for the effective maximum width, which is the field's \<^verbatim>\<open>max_width\<close> when that is set and
  not zero, and the surface width minus the field's x coordinate when it is unset or zero.
\<close>

theorem draw_text_field_max_width:
  assumes "field_wrap field"
    and "load_font P field = Inr fnt"
  shows "draw_text_field P im s field =
           draw_text_field P im (wrap_font_text fnt s (effective_max_width im field))
             (field\<lparr>field_wrap := False\<rparr>) \<and>
         (\<forall>w. field_max_width field = Some w \<and> w \<noteq> 0 \<longrightarrow> effective_max_width im field = w) \<and>
         (field_max_width field = None \<or> field_max_width field = Some 0 \<longrightarrow>
            effective_max_width im field = im_width im - field_x field)"
proof -
  have lf: "load_font P (field\<lparr>field_wrap := False\<rparr>) = load_font P field"
    by (simp add: load_font_def)
  have bgd: "\<And>t bg. draw_background P im fnt t (field\<lparr>field_wrap := False\<rparr>) bg
                 = draw_background P im fnt t field bg"
    by (simp add: draw_background_def)
  have wt: "wrapped_text im fnt s field = wrap_font_text fnt s (effective_max_width im field)"
    using assms(1) by (simp add: wrapped_text_def)
  have id: "wrapped_text im fnt (wrapped_text im fnt s field) (field\<lparr>field_wrap := False\<rparr>)
              = wrapped_text im fnt s field"
    by (simp add: wrapped_text_def)
  have "draw_text_field P im s field =
          draw_text_field P im (wrapped_text im fnt s field) (field\<lparr>field_wrap := False\<rparr>)"
    by (simp add: draw_text_field_def lf assms(2) id bgd Let_def split: option.splits)
  then show ?thesis
    by (auto simp: wt effective_max_width_def)
qed

theorem draw_text_field_max_width_witness:
  "field_wrap (example_field\<lparr>field_max_width := Some 3\<rparr>) \<and>
   load_font example_pil (example_field\<lparr>field_max_width := Some 3\<rparr>) = Inr unit_font \<and>
   effective_max_width (example_image ''RGBA'') (example_field\<lparr>field_max_width := Some 3\<rparr>) = 3 \<and>
   draw_text_field example_pil (example_image ''RGBA'') ''ab cd''
       (example_field\<lparr>field_max_width := Some 3\<rparr>)
     = draw_text_field example_pil (example_image ''RGBA'') (''ab'' @ [newline] @ ''cd'')
         (example_field\<lparr>field_max_width := Some 3, field_wrap := False\<rparr>)"
proof -
  let ?f = "example_field\<lparr>field_max_width := Some 3\<rparr>"
  have a: "field_wrap ?f"
    by (simp add: example_field_def)
  have b: "load_font example_pil ?f = Inr unit_font"
    by (simp add: load_font_def example_field_def example_pil_def)
  have c: "wrap_font_text unit_font ''ab cd'' 3 = ''ab'' @ [newline] @ ''cd''"
    by code_simp
  have d: "field_max_width ?f = Some 3"
    by simp
  from draw_text_field_max_width [OF a b, of "example_image ''RGBA''" "''ab cd''"] a b c d
  show ?thesis by simp
qed

text \<open>
  The claim as stated fails for an explicit \<^verbatim>\<open>max_width\<close> of zero: on a surface 100 wide
  with the field at x = 10 the wrapper receives 90.
\<close>

theorem effective_max_width_zero:
  "field_wrap (example_field\<lparr>field_max_width := Some 0\<rparr>) \<and>
   field_max_width (example_field\<lparr>field_max_width := Some 0\<rparr>) = Some 0 \<and>
   effective_max_width (example_image ''RGBA'') (example_field\<lparr>field_max_width := Some 0\<rparr>) = 90 \<and>
   wrapped_text (example_image ''RGBA'') unit_font ''ab cd''
     (example_field\<lparr>field_max_width := Some 0\<rparr>) = ''ab cd'' \<and>
   wrap_font_text unit_font ''ab cd'' 0 = ''ab'' @ [newline, newline] @ ''cd''"
proof -
  have w: "effective_max_width (example_image ''RGBA'') (example_field\<lparr>field_max_width := Some 0\<rparr>) = 90"
    by (simp add: effective_max_width_def example_field_def example_image_def im_width_def)
  have a: "wrap_font_text unit_font ''ab cd'' 90 = ''ab cd''"
    by code_simp
  have b: "wrap_font_text unit_font ''ab cd'' 0 = ''ab'' @ [newline, newline] @ ''cd''"
    by code_simp
  have c: "field_wrap (example_field\<lparr>field_max_width := Some 0\<rparr>)"
    by (simp add: example_field_def)
  from w a b c show ?thesis
    by (simp add: wrapped_text_def)
qed






end
